theory Spec2Isabelle
  imports Complex_Main "HOL-Library.Sublist"
begin

text \<open>
  A model of the EXIF tool server of \<^verbatim>\<open>index.js\<close>: the path validator, the handlers of
  \<^verbatim>\<open>parse_exif\<close>, \<^verbatim>\<open>get_gps_coordinates\<close>, \<^verbatim>\<open>rename_by_exif\<close> and
  \<^verbatim>\<open>create_photo_tour_kmz\<close>, and the helpers they call. The file system, the clock, the
  metadata reader, the image library and the archiver are the world the handlers run in;
  an exception is a value, and a handler returns the world it leaves behind with its
  reply.
\<close>

section \<open>JavaScript strings\<close>

text \<open>
  Strings are lists of characters. The methods of \<^verbatim>\<open>String.prototype\<close> that
  \<^verbatim>\<open>index.js\<close> calls are written out as list functions. A character of the model
  is one code unit; the character classes of the regular expressions are the ASCII ones.
\<close>

definition startsWith :: "string \<Rightarrow> string \<Rightarrow> bool" where
  "startsWith s p = prefix p s"


fun includes_str :: "string \<Rightarrow> string \<Rightarrow> bool" where
  "includes_str [] sub = (sub = [])"
| "includes_str (c # cs) sub = (prefix sub (c # cs) \<or> includes_str cs sub)"

fun split_at :: "char \<Rightarrow> string \<Rightarrow> string list" where
  "split_at d [] = [[]]"
| "split_at d (c # cs) =
     (if c = d then [] # split_at d cs
      else (case split_at d cs of [] \<Rightarrow> [[c]] | s # ss \<Rightarrow> (c # s) # ss))"

fun join_with :: "string \<Rightarrow> string list \<Rightarrow> string" where
  "join_with d [] = []"
| "join_with d [s] = s"
| "join_with d (s # t # ss) = s @ d @ join_with d (t # ss)"

definition padStart :: "nat \<Rightarrow> char \<Rightarrow> string \<Rightarrow> string" where
  "padStart n c s = replicate (n - length s) c @ s"

text \<open>
  The replacement string of \<^verbatim>\<open>replace\<close> is not taken literally: \<^verbatim>\<open>$$\<close> stands for a
  dollar sign, \<^verbatim>\<open>$&\<close> for the matched text, \<^verbatim>\<open>$`\<close> and \<^verbatim>\<open>$'\<close> for the text before
  and after the match. None of the patterns of \<^verbatim>\<open>index.js\<close> has a capture group, so
  \<^verbatim>\<open>$1\<close> and the like stay as they are.
\<close>

fun expand_repl :: "string \<Rightarrow> string \<Rightarrow> string \<Rightarrow> string \<Rightarrow> string" where
  "expand_repl [] m b a = []"
| "expand_repl [c] m b a = [c]"
| "expand_repl (c # d # r) m b a =
     (if c = CHR ''$'' \<and> d = CHR ''$'' then CHR ''$'' # expand_repl r m b a
      else if c = CHR ''$'' \<and> d = CHR ''&'' then m @ expand_repl r m b a
      else if c = CHR ''$'' \<and> d = CHR 0x60 then b @ expand_repl r m b a
      else if c = CHR ''$'' \<and> d = CHR 0x27 then a @ expand_repl r m b a
      else c # expand_repl (d # r) m b a)"

text \<open>
  \<^verbatim>\<open>s.replace(/pat/g, rep)\<close> for a pattern that is a literal, non-empty text: the
  matches are found from left to right and do not overlap. \<open>bef\<close> is the text already
  read, reversed; \<open>skip\<close> counts the characters of the current match still to pass.
\<close>

fun replace_global :: "string \<Rightarrow> string \<Rightarrow> string \<Rightarrow> nat \<Rightarrow> string \<Rightarrow> string" where
  "replace_global pat rep bef skip [] = []"
| "replace_global pat rep bef (Suc k) (c # cs) = replace_global pat rep (c # bef) k cs"
| "replace_global pat rep bef 0 (c # cs) =
     (if prefix pat (c # cs)
      then expand_repl rep pat (rev bef) (drop (length pat) (c # cs))
             @ replace_global pat rep (c # bef) (length pat - 1) cs
      else c # replace_global pat rep (c # bef) 0 cs)"

definition replaceAll :: "string \<Rightarrow> string \<Rightarrow> string \<Rightarrow> string" where
  "replaceAll pat rep s = replace_global pat rep [] 0 s"

text \<open>\<^verbatim>\<open>s.replace(pat, rep)\<close> for a string pattern: the first match only.\<close>

fun replace_first :: "string \<Rightarrow> string \<Rightarrow> string \<Rightarrow> string \<Rightarrow> string" where
  "replace_first pat rep bef [] = (if pat = [] then expand_repl rep pat (rev bef) [] else [])"
| "replace_first pat rep bef (c # cs) =
     (if prefix pat (c # cs)
      then expand_repl rep pat (rev bef) (drop (length pat) (c # cs)) @ drop (length pat) (c # cs)
      else c # replace_first pat rep (c # bef) cs)"

definition replaceFirst :: "string \<Rightarrow> string \<Rightarrow> string \<Rightarrow> string" where
  "replaceFirst pat rep s = replace_first pat rep [] s"

section \<open>Node's path module (POSIX)\<close>

definition isAbsolute :: "string \<Rightarrow> bool" where
  "isAbsolute p = (case p of [] \<Rightarrow> False | c # _ \<Rightarrow> c = CHR ''/'')"

text \<open>
  \<^verbatim>\<open>normalizeString\<close>: empty segments and \<^verbatim>\<open>.\<close> are dropped, \<^verbatim>\<open>..\<close> removes the
  segment before it; beyond the start it is kept only when \<open>up\<close> is set. \<open>acc\<close> holds
  the segments kept so far, the last one first.
\<close>

fun norm_segs :: "bool \<Rightarrow> string list \<Rightarrow> string list \<Rightarrow> string list" where
  "norm_segs up acc [] = rev acc"
| "norm_segs up acc (s # ss) =
     (if s = [] \<or> s = ''.'' then norm_segs up acc ss
      else if s = ''..'' then
        (case acc of
           [] \<Rightarrow> if up then norm_segs up [''..''] ss else norm_segs up [] ss
         | a # acc' \<Rightarrow>
             if a = ''..''
             then (if up then norm_segs up (''..'' # acc) ss else norm_segs up acc ss)
             else norm_segs up acc' ss)
      else norm_segs up (s # acc) ss)"

definition normalizeString :: "string \<Rightarrow> bool \<Rightarrow> string" where
  "normalizeString p up = join_with ''/'' (norm_segs up [] (split_at (CHR ''/'') p))"

text \<open>
  \<^verbatim>\<open>path.resolve(p)\<close>: the argument, then the working directory, are put in front
  until the text is absolute.
\<close>

definition path_resolve :: "string \<Rightarrow> string \<Rightarrow> string" where
  "path_resolve cwd p =
     (let r0 = (if p = [] then [] else p @ ''/'');
          a0 = isAbsolute p;
          r1 = (if a0 \<or> cwd = [] then r0 else cwd @ ''/'' @ r0);
          a1 = (if a0 \<or> cwd = [] then a0 else isAbsolute cwd);
          res = normalizeString r1 (\<not> a1)
      in if a1 then CHR ''/'' # res else if res \<noteq> [] then res else ''.'')"

definition path_normalize :: "string \<Rightarrow> string" where
  "path_normalize p =
     (if p = [] then ''.''
      else let a = isAbsolute p;
               trailing = (last p = CHR ''/'');
               r = normalizeString p (\<not> a)
           in if r = [] then (if a then ''/'' else if trailing then ''./'' else ''.'')
              else (if a then ''/'' else []) @ r @ (if trailing then ''/'' else []))"

definition path_join :: "string list \<Rightarrow> string" where
  "path_join args =
     (let parts = filter (\<lambda>s. s \<noteq> []) args
      in if parts = [] then ''.'' else path_normalize (join_with ''/'' parts))"

text \<open>
  \<^verbatim>\<open>path.dirname\<close> looks, from the right and down to index 1, for the first slash
  after a character that is not one.
\<close>

definition dirname :: "string \<Rightarrow> string" where
  "dirname p =
     (case p of
        [] \<Rightarrow> ''.''
      | c # t \<Rightarrow>
          (let r = dropWhile (\<lambda>x. x \<noteq> CHR ''/'') (dropWhile (\<lambda>x. x = CHR ''/'') (rev t))
           in if r = [] then (if c = CHR ''/'' then ''/'' else ''.'')
              else if c = CHR ''/'' \<and> length r = 1 then ''//''
              else take (length r) p))"

definition basename :: "string \<Rightarrow> string" where
  "basename p = rev (takeWhile (\<lambda>x. x \<noteq> CHR ''/'') (dropWhile (\<lambda>x. x = CHR ''/'') (rev p)))"

text \<open>
  \<^verbatim>\<open>path.extname\<close>: from the last dot of the last component; empty when there is no
  dot, when the dot is the component's first character, or when the component is \<^verbatim>\<open>..\<close>.
\<close>

definition extname :: "string \<Rightarrow> string" where
  "extname p =
     (let b = basename p;
          e = rev (takeWhile (\<lambda>x. x \<noteq> CHR ''.'') (rev b))
      in if CHR ''.'' \<notin> set b \<or> length e + 1 = length b \<or> b = ''..'' then []
         else CHR ''.'' # e)"

text \<open>
  \<^verbatim>\<open>path.basename(p, ext)\<close>: the last component without \<open>ext\<close>, when the component
  ends with \<open>ext\<close> and is longer than it.
\<close>

definition basename_ext :: "string \<Rightarrow> string \<Rightarrow> string" where
  "basename_ext p ext =
     (let b = basename p
      in if ext \<noteq> [] \<and> ext \<noteq> p \<and> suffix ext b \<and> length ext < length b
         then take (length b - length ext) b
         else if ext \<noteq> [] \<and> ext = p then [] else b)"

section \<open>Numbers and dates\<close>

text \<open>
  A JavaScript number is modelled as a real; \<^verbatim>\<open>NaN\<close> and the infinities are left
  out, so a number is falsy exactly when it is zero. How a number or a date is printed
  (\<^verbatim>\<open>String(x)\<close>, \<^verbatim>\<open>toFixed\<close>, \<^verbatim>\<open>toLocaleString\<close>, \<^verbatim>\<open>toISOString\<close>) is the
  runtime's business and is a parameter of the model.
\<close>

definition truthy_num :: "real option \<Rightarrow> bool" where
  "truthy_num x = (case x of None \<Rightarrow> False | Some v \<Rightarrow> v \<noteq> 0)"

definition truthy_str :: "string option \<Rightarrow> bool" where
  "truthy_str x = (case x of None \<Rightarrow> False | Some v \<Rightarrow> v \<noteq> [])"

text \<open>\<^verbatim>\<open>a || d\<close> for an optional string \<open>a\<close> and a string \<open>d\<close>.\<close>

definition or_str :: "string option \<Rightarrow> string \<Rightarrow> string" where
  "or_str a d = (if truthy_str a then the a else d)"

record jsdate =
  millis :: int
  getFullYear :: int
  getMonth :: nat
  getDate :: nat
  getHours :: nat
  getMinutes :: nat
  getSeconds :: nat

record render =
  num_to_string :: "real \<Rightarrow> string"
  toFixed :: "nat \<Rightarrow> real \<Rightarrow> string"
  toLocaleString :: "jsdate \<Rightarrow> string"
  toISOString :: "jsdate \<Rightarrow> string"

text \<open>
  Decimal digits, most significant first. The digits are computed on integers, whose
  numerals the simplifier divides in binary.
\<close>

definition digit_char :: "int \<Rightarrow> char" where
  "digit_char d = char_of (48 + d)"

function show_digits :: "int \<Rightarrow> string" where
  "show_digits n =
     (if n < 10 then [digit_char n] else show_digits (n div 10) @ [digit_char (n mod 10)])"
  by pat_completeness auto
termination
  by (relation "measure nat") auto

declare show_digits.simps [simp del]

definition show_int :: "int \<Rightarrow> string" where
  "show_int i = (if i < 0 then CHR ''-'' # show_digits (- i) else show_digits i)"

definition show_nat :: "nat \<Rightarrow> string" where
  "show_nat n = show_digits (int n)"

section \<open>Metadata, files and the world outside\<close>

record exif =
  DateTimeOriginal :: "jsdate option"
  CreateDate :: "jsdate option"
  Make :: "string option"
  Model :: "string option"
  LensModel :: "string option"
  latitude :: "real option"
  longitude :: "real option"
  altitude :: "real option"
  City :: "string option"
  Country :: "string option"
  Country_PrimaryLocationName :: "string option"

record gps_data =
  gps_latitude :: real
  gps_longitude :: real
  gps_altitude :: "real option"

datatype error =
    InvalidFilePath
  | PathTraversal
  | FileNotFound string
  | UnsupportedType string
  | EmptyFilepaths
  | BadOutputExtension
  | ReferenceError string
  | TypeError string
  | ExtractionError string
  | FsError string
  | PackagingError string

text \<open>
  What \<^verbatim>\<open>exifr.parse\<close> and \<^verbatim>\<open>exifr.gps\<close> find in an image file is part of the file:
  a rejection, nothing (\<^verbatim>\<open>undefined\<close>), or a record.
\<close>

record photo =
  exif_of :: "error + exif option"
  gps_of :: "error + gps_data option"

datatype node = Photo photo | Other string | Dir

datatype fsop =
    OpRename string string
  | OpMkdir string
  | OpWrite string
  | OpResize string string
  | OpArchive string string
  | OpRemove string

text \<open>
  The file system maps absolute, normalised paths to nodes. \<open>refuses\<close> says which
  operations the operating system rejects (permissions, a full disk, a broken archive
  stream) and with which message; \<open>clock\<close> is what \<^verbatim>\<open>new Date()\<close> returns while the
  \<open>i\<close>-th item of a batch is processed.
\<close>

record world =
  cwd :: string
  fs :: "(string \<times> node) list"
  refuses :: "fsop \<Rightarrow> string option"
  clock :: "nat \<Rightarrow> jsdate"
  renderer :: render

definition fs_remove :: "string \<Rightarrow> (string \<times> node) list \<Rightarrow> (string \<times> node) list" where
  "fs_remove p entries = filter (\<lambda>e. fst e \<noteq> p) entries"

definition fs_put :: "string \<Rightarrow> node \<Rightarrow> (string \<times> node) list \<Rightarrow> (string \<times> node) list" where
  "fs_put p n entries = (p, n) # fs_remove p entries"

definition lookup :: "world \<Rightarrow> string \<Rightarrow> node option" where
  "lookup w p = map_of (fs w) (path_resolve (cwd w) p)"

definition existsSync :: "world \<Rightarrow> string \<Rightarrow> bool" where
  "existsSync w p = (lookup w p \<noteq> None)"

definition message :: "error \<Rightarrow> string" where
  "message e =
     (case e of
        InvalidFilePath \<Rightarrow> ''Invalid file path provided''
      | PathTraversal \<Rightarrow> ''Path traversal detected - access denied''
      | FileNotFound p \<Rightarrow> ''File not found: '' @ p
      | UnsupportedType ext \<Rightarrow>
          ''Unsupported file type: '' @ ext
            @ ''. Supported types: .jpg, .jpeg, .png, .tiff, .tif, .heic, .heif, .webp, .avif''
      | EmptyFilepaths \<Rightarrow> ''filepaths must be a non-empty array''
      | BadOutputExtension \<Rightarrow> ''Output path must end with .kmz extension''
      | ReferenceError v \<Rightarrow> v @ '' is not defined''
      | TypeError m \<Rightarrow> m
      | ExtractionError m \<Rightarrow> m
      | FsError m \<Rightarrow> m
      | PackagingError m \<Rightarrow> m)"

text \<open>
  \<^verbatim>\<open>fs.promises.rename\<close>: the source must exist; the node moves to the destination
  and replaces whatever is there.
\<close>

definition rename :: "world \<Rightarrow> string \<Rightarrow> string \<Rightarrow> error + world" where
  "rename w src dst =
     (let s = path_resolve (cwd w) src; d = path_resolve (cwd w) dst
      in case refuses w (OpRename s d) of
           Some m \<Rightarrow> Inl (FsError m)
         | None \<Rightarrow>
             (case map_of (fs w) s of
                None \<Rightarrow> Inl (FsError (''ENOENT: no such file or directory, rename '' @ s))
              | Some n \<Rightarrow>
                  if s = d then Inr w
                  else Inr (w\<lparr>fs := fs_put d n (fs_remove s (fs w))\<rparr>)))"

definition exifr_parse :: "world \<Rightarrow> string \<Rightarrow> error + exif option" where
  "exifr_parse w p =
     (case lookup w p of
        None \<Rightarrow> Inl (ExtractionError ''ENOENT: no such file or directory'')
      | Some Dir \<Rightarrow> Inl (ExtractionError ''EISDIR: illegal operation on a directory'')
      | Some (Other _) \<Rightarrow> Inl (ExtractionError ''Unknown file format'')
      | Some (Photo ph) \<Rightarrow> exif_of ph)"

definition exifr_gps :: "world \<Rightarrow> string \<Rightarrow> error + gps_data option" where
  "exifr_gps w p =
     (case lookup w p of
        None \<Rightarrow> Inl (ExtractionError ''ENOENT: no such file or directory'')
      | Some Dir \<Rightarrow> Inl (ExtractionError ''EISDIR: illegal operation on a directory'')
      | Some (Other _) \<Rightarrow> Inl (ExtractionError ''Unknown file format'')
      | Some (Photo ph) \<Rightarrow> gps_of ph)"

section \<open>Validation\<close>

text \<open>
  \<^verbatim>\<open>validateFilePath\<close> (index.js, lines 15 to 29). \<open>dir\<close> is what
  \<^verbatim>\<open>process.cwd()\<close> returns. The argument is a string by its type, so of the first
  test only the empty string is left.
\<close>

definition validateFilePath :: "string \<Rightarrow> string \<Rightarrow> error + string" where
  "validateFilePath dir filepath =
     (if filepath = [] then Inl InvalidFilePath
      else let absolutePath = path_resolve dir filepath
           in if includes_str absolutePath ''..'' \<or> \<not> startsWith absolutePath dir
              then Inl PathTraversal
              else Inr absolutePath)"

definition validateFileExists :: "world \<Rightarrow> string \<Rightarrow> error + unit" where
  "validateFileExists w filepath =
     (if \<not> existsSync w filepath then Inl (FileNotFound filepath) else Inr ())"

text \<open>\<^verbatim>\<open>toLowerCase\<close>, for the letters A to Z.\<close>

definition toLowerCase :: "string \<Rightarrow> string" where
  "toLowerCase s =
     map (\<lambda>c. let n = (of_char c :: nat) in if 65 \<le> n \<and> n \<le> 90 then char_of (n + 32) else c) s"

definition allowedExts :: "string list" where
  "allowedExts =
     [''.jpg'', ''.jpeg'', ''.png'', ''.tiff'', ''.tif'', ''.heic'', ''.heif'', ''.webp'', ''.avif'']"

definition validateImageFile :: "string \<Rightarrow> error + unit" where
  "validateImageFile filepath =
     (let ext = toLowerCase (extname filepath)
      in if ext \<notin> set allowedExts then Inl (UnsupportedType ext) else Inr ())"

text \<open>The three checks in the order every handler that validates makes them.\<close>

definition validated :: "world \<Rightarrow> string \<Rightarrow> error + string" where
  "validated w filepath =
     (case validateFilePath (cwd w) filepath of
        Inl e \<Rightarrow> Inl e
      | Inr safePath \<Rightarrow>
          (case validateFileExists w safePath of
             Inl e \<Rightarrow> Inl e
           | Inr _ \<Rightarrow>
               (case validateImageFile safePath of
                  Inl e \<Rightarrow> Inl e
                | Inr _ \<Rightarrow> Inr safePath)))"

section \<open>XML escaping\<close>

text \<open>\<^verbatim>\<open>escapeXml\<close> (index.js, lines 828 to 835): five replacements, one after the other.\<close>

definition escapeXml :: "string \<Rightarrow> string" where
  "escapeXml str =
     replaceAll [CHR 0x27] ''&apos;''
       (replaceAll [CHR 0x22] ''&quot;''
         (replaceAll ''>'' ''&gt;''
           (replaceAll ''<'' ''&lt;''
             (replaceAll ''&'' ''&amp;'' str))))"

section \<open>The tool handlers\<close>

text \<open>
  A handler runs inside the \<^verbatim>\<open>try\<close> of the request handler (index.js, lines 260 and
  729 to 737): whatever it throws becomes a reply flagged \<^verbatim>\<open>isError\<close> whose text is
  \<^verbatim>\<open>Error: \<close> and the message.
\<close>

datatype 'a reply = Reply 'a | ErrorReply string

definition isError :: "'a reply \<Rightarrow> bool" where
  "isError r = (case r of Reply _ \<Rightarrow> False | ErrorReply _ \<Rightarrow> True)"

definition respond :: "error + 'a \<Rightarrow> 'a reply" where
  "respond r = (case r of Inl e \<Rightarrow> ErrorReply (''Error: '' @ message e) | Inr v \<Rightarrow> Reply v)"

subsection \<open>parse_exif\<close>

record parse_options =
  opt_gps :: "bool option"
  opt_thumbnail :: "bool option"
  opt_xmp :: "bool option"
  opt_icc :: "bool option"
  opt_iptc :: "bool option"

datatype parse_reply = NoExifNotice string | ExifReport string

text \<open>
  The handler of \<^verbatim>\<open>parse_exif\<close> (index.js, lines 262 to 296) declares \<^verbatim>\<open>filepath\<close>,
  \<^verbatim>\<open>options\<close> and \<^verbatim>\<open>parseOptions\<close> and then reads \<^verbatim>\<open>safePath\<close>, which no
  enclosing scope declares: in a module the read throws a \<^verbatim>\<open>ReferenceError\<close>.
  The scope below lists the bindings that hold a string; \<open>formatExifData\<close> stands for
  the function of that name.
\<close>

definition parse_exif_scope :: "string \<Rightarrow> string \<rightharpoonup> string" where
  "parse_exif_scope filepath = [''name'' \<mapsto> ''parse_exif'', ''filepath'' \<mapsto> filepath]"

definition read_var :: "(string \<rightharpoonup> 'a) \<Rightarrow> string \<Rightarrow> error + 'a" where
  "read_var scope v = (case scope v of None \<Rightarrow> Inl (ReferenceError v) | Some x \<Rightarrow> Inr x)"

definition parse_exif ::
    "world \<Rightarrow> (exif \<Rightarrow> string \<Rightarrow> string) \<Rightarrow> string \<Rightarrow> parse_options \<Rightarrow> parse_reply reply" where
  "parse_exif w formatExifData filepath options =
     respond
       (case read_var (parse_exif_scope filepath) ''safePath'' of
          Inl e \<Rightarrow> Inl e
        | Inr safePath \<Rightarrow>
            (case exifr_parse w safePath of
               Inl e \<Rightarrow> Inl e
             | Inr None \<Rightarrow> Inr (NoExifNotice (''No EXIF data found in '' @ basename safePath))
             | Inr (Some exifData) \<Rightarrow> Inr (ExifReport (formatExifData exifData safePath))))"

subsection \<open>get_gps_coordinates\<close>

record coordinates =
  co_latitude :: real
  co_longitude :: real
  co_altitude :: "real option"

datatype gps_reply =
    NoGpsNotice string
  | GpsReport string coordinates string

text \<open>
  The handler of \<^verbatim>\<open>get_gps_coordinates\<close> (index.js, lines 354 to 388). The reply's
  JSON text is kept as the object it prints; \<^verbatim>\<open>null\<close> is \<open>None\<close>.
\<close>

definition or_null :: "real option \<Rightarrow> real option" where
  "or_null x = (if truthy_num x then x else None)"

definition get_gps_coordinates :: "world \<Rightarrow> string \<Rightarrow> gps_reply reply" where
  "get_gps_coordinates w filepath =
     respond
       (case validated w filepath of
          Inl e \<Rightarrow> Inl e
        | Inr safePath \<Rightarrow>
            (case exifr_gps w safePath of
               Inl e \<Rightarrow> Inl e
             | Inr None \<Rightarrow> Inr (NoGpsNotice (''No GPS data found in '' @ basename safePath))
             | Inr (Some gpsData) \<Rightarrow>
                 Inr (GpsReport (basename safePath)
                       \<lparr>co_latitude = gps_latitude gpsData,
                        co_longitude = gps_longitude gpsData,
                        co_altitude = or_null (gps_altitude gpsData)\<rparr>
                       (''https://www.google.com/maps?q=''
                          @ num_to_string (renderer w) (gps_latitude gpsData) @ '',''
                          @ num_to_string (renderer w) (gps_longitude gpsData)))))"

subsection \<open>The arguments of a tool call\<close>

text \<open>
  The \<^verbatim>\<open>arguments\<close> object of a request, with the defaults of the handlers'
  destructuring already filled in.
\<close>

record args =
  filepaths :: "string list"
  template :: string
  dateFormat :: string
  timeFormat :: string
  dryRun :: bool
  backup :: bool
  counterStart :: int
  outputPath :: string
  title :: string
  description :: string
  thumbnailSize :: int
  includeFullImages :: bool
  drawPath :: bool
  numberPhotos :: bool

subsection \<open>More of the file system\<close>

text \<open>
  \<^verbatim>\<open>mkdir(p, {recursive: true})\<close> creates the directory and every missing directory
  above it; it fails when one of them is there and is not a directory.
\<close>

definition ancestors_or_self :: "string \<Rightarrow> string list" where
  "ancestors_or_self p =
     (let segs = filter (\<lambda>s. s \<noteq> []) (split_at (CHR ''/'') p)
      in map (\<lambda>n. CHR ''/'' # join_with ''/'' (take n segs)) [1..<Suc (length segs)])"

definition mkdir :: "world \<Rightarrow> string \<Rightarrow> error + world" where
  "mkdir w p =
     (let d = path_resolve (cwd w) p; ds = ancestors_or_self d
      in case refuses w (OpMkdir d) of
           Some m \<Rightarrow> Inl (FsError m)
         | None \<Rightarrow>
             if list_ex (\<lambda>q. case map_of (fs w) q of None \<Rightarrow> False | Some n \<Rightarrow> n \<noteq> Dir) ds
             then Inl (FsError (''EEXIST: file already exists, mkdir '' @ d))
             else Inr (w\<lparr>fs := fold (\<lambda>q entries. if map_of entries q = None then fs_put q Dir entries else entries)
                                   ds (fs w)\<rparr>))"

definition writeFile :: "world \<Rightarrow> string \<Rightarrow> string \<Rightarrow> error + world" where
  "writeFile w p content =
     (let d = path_resolve (cwd w) p
      in case refuses w (OpWrite d) of
           Some m \<Rightarrow> Inl (FsError m)
         | None \<Rightarrow> Inr (w\<lparr>fs := fs_put d (Other content) (fs w)\<rparr>))"

text \<open>
  \<^verbatim>\<open>sharp(src)...toFile(dst)\<close>: the source must be an image; the copy carries no
  metadata.
\<close>

definition sharp_toFile :: "world \<Rightarrow> string \<Rightarrow> string \<Rightarrow> error + world" where
  "sharp_toFile w src dst =
     (let s = path_resolve (cwd w) src; d = path_resolve (cwd w) dst
      in case refuses w (OpResize s d) of
           Some m \<Rightarrow> Inl (FsError m)
         | None \<Rightarrow>
             (case map_of (fs w) s of
                Some (Photo _) \<Rightarrow>
                  Inr (w\<lparr>fs := fs_put d (Photo \<lparr>exif_of = Inr None, gps_of = Inr None\<rparr>) (fs w)\<rparr>)
              | _ \<Rightarrow> Inl (FsError (''Input file is missing or of an unsupported image format''))))"

definition inside :: "string \<Rightarrow> string \<Rightarrow> bool" where
  "inside d p = (p = d \<or> prefix (d @ ''/'') p)"

text \<open>
  The archive step (index.js, lines 687 to 698): the output file is opened, the
  directory is added and the archive is finalised; an \<^verbatim>\<open>error\<close> event of the archive
  rejects the promise. The archive is kept as the list of the names it packs.
\<close>

definition archive_directory :: "world \<Rightarrow> string \<Rightarrow> string \<Rightarrow> error + world" where
  "archive_directory w d out =
     (case refuses w (OpArchive d out) of
        Some m \<Rightarrow> Inl (PackagingError m)
      | None \<Rightarrow>
          Inr (w\<lparr>fs := fs_put out
                          (Other (join_with '','' (map fst (filter (\<lambda>e. inside d (fst e) \<and> fst e \<noteq> d) (fs w)))))
                          (fs w)\<rparr>))"

text \<open>\<^verbatim>\<open>removeDir\<close> (index.js, lines 838 to 841): \<^verbatim>\<open>rm\<close> with \<^verbatim>\<open>recursive\<close> and \<^verbatim>\<open>force\<close>.\<close>

definition removeDir :: "world \<Rightarrow> string \<Rightarrow> error + world" where
  "removeDir w p =
     (let d = path_resolve (cwd w) p
      in case refuses w (OpRemove d) of
           Some m \<Rightarrow> Inl (FsError m)
         | None \<Rightarrow> Inr (w\<lparr>fs := filter (\<lambda>e. \<not> inside d (fst e)) (fs w)\<rparr>))"

subsection \<open>create_photo_tour_kmz\<close>

record photo_entry =
  ph_id :: string
  ph_number :: nat
  ph_filepath :: string
  ph_filename :: string
  ph_latitude :: real
  ph_longitude :: real
  ph_altitude :: real
  ph_datetime :: jsdate
  ph_camera :: string
  ph_lens :: string
  ph_thumbnailName :: string
  ph_fullImageName :: "string option"

definition is_space :: "char \<Rightarrow> bool" where
  "is_space c = (let n = (of_char c :: nat) in (9 \<le> n \<and> n \<le> 13) \<or> n = 32)"

definition trim :: "string \<Rightarrow> string" where
  "trim s = rev (dropWhile is_space (rev (dropWhile is_space s)))"

text \<open>
  \<^verbatim>\<open>a || b || new Date()\<close> for the two optional capture times; \<open>now\<close> is the clock's
  reading.
\<close>

definition capture_time :: "exif \<Rightarrow> jsdate \<Rightarrow> jsdate" where
  "capture_time e now =
     (case DateTimeOriginal e of
        Some d \<Rightarrow> d
      | None \<Rightarrow> (case CreateDate e of Some d \<Rightarrow> d | None \<Rightarrow> now))"

text \<open>
  One round of the collecting loop (index.js, lines 603 to 640), up to the \<^verbatim>\<open>push\<close>:
  an error for what the \<^verbatim>\<open>catch\<close> swallows, \<open>None\<close> for a file without both
  coordinates, the entry otherwise. The round reads the coordinates and the fields it
  asks \<^verbatim>\<open>exifr\<close> to pick, no others.
\<close>

definition tour_entry :: "world \<Rightarrow> args \<Rightarrow> nat \<Rightarrow> nat \<Rightarrow> string \<Rightarrow> error + photo_entry option" where
  "tour_entry w a i photoNumber filepath =
     (case validated w filepath of
        Inl e \<Rightarrow> Inl e
      | Inr safePath \<Rightarrow>
          (case exifr_parse w safePath of
             Inl e \<Rightarrow> Inl e
           | Inr None \<Rightarrow> Inr None
           | Inr (Some exifData) \<Rightarrow>
               if truthy_num (latitude exifData) \<and> truthy_num (longitude exifData)
               then (let filename = basename safePath;
                         photoId = ''photo_'' @ padStart 3 (CHR ''0'') (show_nat photoNumber)
                     in Inr (Some
                          \<lparr>ph_id = photoId,
                           ph_number = photoNumber,
                           ph_filepath = safePath,
                           ph_filename = filename,
                           ph_latitude = the (latitude exifData),
                           ph_longitude = the (longitude exifData),
                           ph_altitude = (if truthy_num (altitude exifData) then the (altitude exifData) else 0),
                           ph_datetime = capture_time exifData (clock w i),
                           ph_camera = trim (or_str (Make exifData) [] @ '' '' @ or_str (Model exifData) []),
                           ph_lens = or_str (LensModel exifData) [],
                           ph_thumbnailName = photoId @ ''_thumb.jpg'',
                           ph_fullImageName =
                             (if includeFullImages a then Some (photoId @ ''_full.jpg'') else None)\<rparr>))
               else Inr None))"

fun collect_photos ::
    "world \<Rightarrow> args \<Rightarrow> nat \<Rightarrow> nat \<Rightarrow> photo_entry list \<Rightarrow> string list \<Rightarrow> photo_entry list" where
  "collect_photos w a i photoNumber photoData [] = photoData"
| "collect_photos w a i photoNumber photoData (filepath # rest) =
     (case tour_entry w a i photoNumber filepath of
        Inr (Some entry) \<Rightarrow>
          collect_photos w a (Suc i) (Suc photoNumber) (photoData @ [entry]) rest
      | _ \<Rightarrow> collect_photos w a (Suc i) photoNumber photoData rest)"

text \<open>
  \<^verbatim>\<open>photoData.sort((a, b) => new Date(a.datetime) - new Date(b.datetime))\<close>: the
  sort of an array is stable, as insertion sort by the key is.
\<close>

definition sort_by_datetime :: "photo_entry list \<Rightarrow> photo_entry list" where
  "sort_by_datetime photoData = sort_key (\<lambda>p. millis (ph_datetime p)) photoData"

text \<open>\<^verbatim>\<open>generateKML\<close> (index.js, lines 741 to 825), line by line.\<close>

definition photo_description :: "render \<Rightarrow> photo_entry \<Rightarrow> string" where
  "photo_description r photo =
     concat
       ([''<![CDATA['',
         ''<img src='' @ [CHR 0x22] @ ''images/'' @ ph_thumbnailName photo @ [CHR 0x22]
           @ '' width='' @ [CHR 0x22] @ show_nat (min 400 800) @ [CHR 0x22] @ '' /><br/>'',
         ''<b>Photo #'' @ show_nat (ph_number photo) @ ''</b><br/>'',
         ''Date: '' @ toLocaleString r (ph_datetime photo) @ ''<br/>'']
        @ (if ph_camera photo \<noteq> [] then [''Camera: '' @ ph_camera photo @ ''<br/>''] else [])
        @ (if ph_lens photo \<noteq> [] then [''Lens: '' @ ph_lens photo @ ''<br/>''] else [])
        @ [''GPS: '' @ toFixed r 6 (ph_latitude photo) @ '', '' @ toFixed r 6 (ph_longitude photo)
             @ ''<br/>'']
        @ (if ph_altitude photo > 0 then [''Altitude: '' @ toFixed r 1 (ph_altitude photo) @ ''m<br/>'']
           else [])
        @ ['']]>''])"

definition coordinate_text :: "render \<Rightarrow> photo_entry \<Rightarrow> string" where
  "coordinate_text r photo =
     num_to_string r (ph_longitude photo) @ '','' @ num_to_string r (ph_latitude photo) @ '',''
       @ num_to_string r (ph_altitude photo)"

definition placemark :: "render \<Rightarrow> bool \<Rightarrow> photo_entry \<Rightarrow> string list" where
  "placemark r numbered photo =
     [''    <Placemark>'',
      ''      <name>'' @ (if numbered then show_nat (ph_number photo) @ ''. '' else [])
        @ escapeXml (ph_filename photo) @ ''</name>'',
      ''      <description>'' @ photo_description r photo @ ''</description>'',
      ''      <styleUrl>#photoIcon</styleUrl>'',
      ''      <Point>'',
      ''        <coordinates>'' @ coordinate_text r photo @ ''</coordinates>'',
      ''      </Point>'',
      ''      <TimeStamp>'',
      ''        <when>'' @ toISOString r (ph_datetime photo) @ ''</when>'',
      ''      </TimeStamp>'',
      ''    </Placemark>'']"

definition kml_styles :: "string list" where
  "kml_styles =
     [''  <Style id='' @ [CHR 0x22] @ ''photoIcon'' @ [CHR 0x22] @ ''>'',
      ''    <IconStyle>'',
      ''      <Icon>'',
      ''        <href>http://maps.google.com/mapfiles/kml/paddle/red-circle.png</href>'',
      ''      </Icon>'',
      ''      <hotSpot x='' @ [CHR 0x22] @ ''0.5'' @ [CHR 0x22] @ '' y='' @ [CHR 0x22] @ ''0'' @ [CHR 0x22]
        @ '' xunits='' @ [CHR 0x22] @ ''fraction'' @ [CHR 0x22]
        @ '' yunits='' @ [CHR 0x22] @ ''fraction'' @ [CHR 0x22] @ ''/>'',
      ''    </IconStyle>'',
      ''  </Style>'',
      ''  <Style id='' @ [CHR 0x22] @ ''pathStyle'' @ [CHR 0x22] @ ''>'',
      ''    <LineStyle>'',
      ''      <color>ff0000ff</color>'',
      ''      <width>3</width>'',
      ''    </LineStyle>'',
      ''  </Style>'']"

definition kml_lines :: "render \<Rightarrow> photo_entry list \<Rightarrow> string \<Rightarrow> string \<Rightarrow> bool \<Rightarrow> bool \<Rightarrow> string list" where
  "kml_lines r photoData ttl desc path numbered =
     [''<?xml version='' @ [CHR 0x22] @ ''1.0'' @ [CHR 0x22] @ '' encoding='' @ [CHR 0x22] @ ''UTF-8''
        @ [CHR 0x22] @ ''?>'',
      ''<kml xmlns='' @ [CHR 0x22] @ ''http://www.opengis.net/kml/2.2'' @ [CHR 0x22] @ ''>'',
      ''<Document>'',
      ''  <name>'' @ escapeXml ttl @ ''</name>'']
     @ (if desc \<noteq> [] then [''  <description>'' @ escapeXml desc @ ''</description>''] else [])
     @ kml_styles
     @ [''  <Folder>'', ''    <name>Photos</name>'']
     @ concat (map (placemark r numbered) photoData)
     @ [''  </Folder>'']
     @ (if path \<and> length photoData > 1
        then [''  <Placemark>'',
              ''    <name>Photo Path</name>'',
              ''    <description>The path taken between photos</description>'',
              ''    <styleUrl>#pathStyle</styleUrl>'',
              ''    <LineString>'',
              ''      <tessellate>1</tessellate>'',
              ''      <coordinates>'']
             @ map (\<lambda>photo. ''        '' @ coordinate_text r photo) photoData
             @ [''      </coordinates>'',
                ''    </LineString>'',
                ''  </Placemark>'']
        else [])
     @ [''</Document>'', ''</kml>'']"

definition generateKML :: "render \<Rightarrow> photo_entry list \<Rightarrow> string \<Rightarrow> string \<Rightarrow> bool \<Rightarrow> bool \<Rightarrow> string" where
  "generateKML r photoData ttl desc path numbered =
     join_with [CHR 0x0A] (kml_lines r photoData ttl desc path numbered)"

text \<open>
  The thumbnail loop (index.js, lines 666 to 685): a failure of either image is caught
  and the loop goes on with the next photo.
\<close>

definition make_images :: "args \<Rightarrow> string \<Rightarrow> world \<Rightarrow> photo_entry \<Rightarrow> error + world" where
  "make_images a tempDir w photo =
     (case sharp_toFile w (ph_filepath photo) (path_join [tempDir, ''images'', ph_thumbnailName photo]) of
        Inl e \<Rightarrow> Inl e
      | Inr w1 \<Rightarrow>
          (case ph_fullImageName photo of
             Some fullImageName \<Rightarrow>
               if includeFullImages a
               then sharp_toFile w1 (ph_filepath photo) (path_join [tempDir, ''images'', fullImageName])
               else Inr w1
           | None \<Rightarrow> Inr w1))"

fun make_all_images :: "args \<Rightarrow> string \<Rightarrow> world \<Rightarrow> photo_entry list \<Rightarrow> world" where
  "make_all_images a tempDir w [] = w"
| "make_all_images a tempDir w (photo # rest) =
     (case make_images a tempDir w photo of
        Inl e \<Rightarrow> make_all_images a tempDir w rest
      | Inr w1 \<Rightarrow> make_all_images a tempDir w1 rest)"

record tour_summary =
  sum_title :: string
  sum_photos :: nat
  sum_path :: bool
  sum_numbered :: bool
  sum_output :: string
  sum_timeline :: "(nat \<times> string \<times> string) list"
  sum_more :: "nat option"

datatype tour_reply = NoGpsPhotos string | TourCreated tour_summary

text \<open>
  The steps after the sort (index.js, lines 654 to 723). Each step that throws leaves
  the world as it is at that point; the \<^verbatim>\<open>catch\<close> of the request handler only
  builds the reply.
\<close>

definition package_tour :: "world \<Rightarrow> args \<Rightarrow> string \<Rightarrow> photo_entry list \<Rightarrow> world \<times> (error + tour_reply)" where
  "package_tour w a safeOutputPath photoData =
     (let kmlContent = generateKML (renderer w) photoData (title a) (description a) (drawPath a) (numberPhotos a);
          tempDir = path_join [dirname safeOutputPath,
                               ''.kmz_temp_'' @ show_int (millis (clock w (Suc (length (filepaths a)))))]
      in case mkdir w tempDir of
           Inl e \<Rightarrow> (w, Inl e)
         | Inr w1 \<Rightarrow>
        (case mkdir w1 (path_join [tempDir, ''images'']) of
           Inl e \<Rightarrow> (w1, Inl e)
         | Inr w2 \<Rightarrow>
        (case writeFile w2 (path_join [tempDir, ''doc.kml'']) kmlContent of
           Inl e \<Rightarrow> (w2, Inl e)
         | Inr w3 \<Rightarrow>
        (let w4 = make_all_images a tempDir w3 photoData
         in case archive_directory w4 tempDir safeOutputPath of
              Inl e \<Rightarrow> (w4, Inl e)
            | Inr w5 \<Rightarrow>
           (case removeDir w5 tempDir of
              Inl e \<Rightarrow> (w5, Inl e)
            | Inr w6 \<Rightarrow>
                if \<not> existsSync w6 safeOutputPath
                then (w6, Inl (FsError (''ENOENT: no such file or directory, stat '' @ safeOutputPath)))
                else (w6, Inr (TourCreated
                       \<lparr>sum_title = title a,
                        sum_photos = length photoData,
                        sum_path = drawPath a,
                        sum_numbered = numberPhotos a,
                        sum_output = basename safeOutputPath,
                        sum_timeline = map (\<lambda>p. (ph_number p, toLocaleString (renderer w) (ph_datetime p),
                                                  ph_filename p)) (take 5 photoData),
                        sum_more = (if length photoData > 5 then Some (length photoData - 5) else None)\<rparr>)))))))"


subsection \<open>rename_by_exif: the template\<close>

text \<open>
  \<^verbatim>\<open>formatDateForRename\<close> and \<^verbatim>\<open>formatTimeForRename\<close> (index.js, lines 844 to
  869): each token is replaced once, by \<^verbatim>\<open>replace\<close> with a string pattern.
\<close>

definition two_digits :: "nat \<Rightarrow> string" where
  "two_digits n = padStart 2 (CHR ''0'') (show_nat n)"

definition formatDateForRename :: "jsdate \<Rightarrow> string \<Rightarrow> string" where
  "formatDateForRename d format =
     replaceFirst ''DD'' (two_digits (getDate d))
       (replaceFirst ''MM'' (two_digits (getMonth d + 1))
         (replaceFirst ''YYYY'' (show_int (getFullYear d)) format))"

definition formatTimeForRename :: "jsdate \<Rightarrow> string \<Rightarrow> string" where
  "formatTimeForRename d format =
     replaceFirst ''ss'' (two_digits (getSeconds d))
       (replaceFirst ''mm'' (two_digits (getMinutes d))
         (replaceFirst ''HH'' (two_digits (getHours d)) format))"

text \<open>
  \<^verbatim>\<open>s.replace(/[...]+/g, rep)\<close> for a class of characters and a literal \<open>rep\<close>: every
  run of characters of the class becomes one \<open>rep\<close>. \<open>run\<close> says that the character
  before was of the class.
\<close>

fun replace_runs :: "(char \<Rightarrow> bool) \<Rightarrow> string \<Rightarrow> bool \<Rightarrow> string \<Rightarrow> string" where
  "replace_runs cls rep run [] = []"
| "replace_runs cls rep run (c # cs) =
     (if cls c then (if run then replace_runs cls rep True cs else rep @ replace_runs cls rep True cs)
      else c # replace_runs cls rep False cs)"

definition is_word_char :: "char \<Rightarrow> bool" where
  "is_word_char c =
     (let n = (of_char c :: nat)
      in (48 \<le> n \<and> n \<le> 57) \<or> (65 \<le> n \<and> n \<le> 90) \<or> (97 \<le> n \<and> n \<le> 122) \<or> n = 95)"

text \<open>
  The three clean-up replacements (index.js, lines 492 to 495): runs of two or more
  underscores become one, one underscore is taken from each end, and every character
  outside \<^verbatim>\<open>[\w\-_.]\<close> becomes an underscore.
\<close>

definition strip_underscores :: "string \<Rightarrow> string" where
  "strip_underscores s =
     (let s1 = (case s of [] \<Rightarrow> [] | c # cs \<Rightarrow> if c = CHR ''_'' then cs else s)
      in if s1 \<noteq> [] \<and> last s1 = CHR ''_'' then butlast s1 else s1)"

definition cleanName :: "string \<Rightarrow> string" where
  "cleanName s =
     map (\<lambda>c. if is_word_char c \<or> c = CHR ''-'' \<or> c = CHR ''_'' \<or> c = CHR ''.'' then c else CHR ''_'')
       (strip_underscores (replace_runs (\<lambda>c. c = CHR ''_'') ''_'' False s))"

text \<open>
  The location variables (index.js, lines 431 to 439): filled only when the latitude
  and the longitude are both truthy.
\<close>

definition location_fields :: "render \<Rightarrow> exif option \<Rightarrow> string \<times> string \<times> string" where
  "location_fields r exifData =
     (case exifData of
        None \<Rightarrow> ([], [], [])
      | Some e \<Rightarrow>
          if truthy_num (latitude e) \<and> truthy_num (longitude e)
          then (toFixed r 4 (the (latitude e)) @ ''_'' @ toFixed r 4 (the (longitude e)),
                or_str (City e) (or_str (City e) []),
                or_str (Country e) (or_str (Country_PrimaryLocationName e) []))
          else ([], [], []))"

text \<open>
  The global replacements of the template variables, applied one after the other in the
  order of the list (index.js, lines 463 to 474 and 477 to 488).
\<close>

definition substitute :: "string \<Rightarrow> (string \<times> string) list \<Rightarrow> string" where
  "substitute tpl vars = fold (\<lambda>v s. replaceAll (fst v) (snd v) s) vars tpl"

definition fillTemplate :: "world \<Rightarrow> args \<Rightarrow> nat \<Rightarrow> int \<Rightarrow> string \<Rightarrow> exif option \<Rightarrow> string" where
  "fillTemplate w a i counter safePath exifData =
     (let originalName = basename_ext safePath (extname safePath);
          count = padStart 3 (CHR ''0'') (show_int counter)
      in case exifData of
           Some e \<Rightarrow>
             (case location_fields (renderer w) exifData of
                (location, city, country) \<Rightarrow>
                  (let date = capture_time e (clock w i);
                       dateStr = formatDateForRename date (dateFormat a);
                       timeStr = formatTimeForRename date (timeFormat a);
                       datetimeStr = dateStr @ ''_'' @ timeStr;
                       camera = filter (\<lambda>c. \<not> is_space c) (or_str (Make e) ''Unknown'');
                       model = filter (\<lambda>c. \<not> is_space c) (or_str (Model e) []);
                       lens = replace_runs (\<lambda>c. c = CHR ''/'' \<or> is_space c) ''-'' False
                                (or_str (LensModel e) [])
                   in substitute (template a)
                        [(''{date}'', dateStr), (''{time}'', timeStr), (''{datetime}'', datetimeStr),
                         (''{camera}'', camera), (''{model}'', model), (''{lens}'', lens),
                         (''{location}'', location), (''{city}'', city), (''{country}'', country),
                         (''{original}'', originalName), (''{counter}'', count)]))
         | None \<Rightarrow>
             substitute (template a)
               [(''{date}'', ''NoDate''), (''{time}'', ''NoTime''), (''{datetime}'', ''NoDateTime''),
                (''{camera}'', ''NoCamera''), (''{model}'', []), (''{lens}'', []),
                (''{location}'', []), (''{city}'', []), (''{country}'', []),
                (''{original}'', originalName), (''{counter}'', count)])"

subsection \<open>rename_by_exif: collisions and the commit\<close>

text \<open>
  The probing loop (index.js, lines 499 to 506). Nothing bounds it in the source, so the
  model says \<open>None\<close> when it never ends.
\<close>

partial_function (option) probe ::
    "world \<Rightarrow> string \<Rightarrow> string \<Rightarrow> string \<Rightarrow> string \<Rightarrow> string \<Rightarrow> nat \<Rightarrow> string option" where
  "probe w safePath dir newName ext finalPath dupCounter =
     (if existsSync w finalPath \<and> finalPath \<noteq> safePath
      then probe w safePath dir newName ext
             (path_join [dir, newName @ ''_'' @ show_nat dupCounter @ ext]) (dupCounter + 1)
      else Some finalPath)"

declare probe.simps [code]

text \<open>
  \<^verbatim>\<open>createSafeBackupDir\<close> (index.js, lines 46 to 60), with the same kind of loop.
\<close>

partial_function (option) backup_probe :: "world \<Rightarrow> string \<Rightarrow> string \<Rightarrow> nat \<Rightarrow> string option" where
  "backup_probe w backupDir finalBackupDir counter =
     (if existsSync w finalBackupDir
      then backup_probe w backupDir (backupDir @ ''_'' @ show_nat counter) (counter + 1)
      else Some finalBackupDir)"

declare backup_probe.simps [code]

definition createSafeBackupDir :: "world \<Rightarrow> string \<Rightarrow> string option" where
  "createSafeBackupDir w originalPath =
     (let dir = dirname originalPath;
          timestamp = map (\<lambda>c. if c = CHR '':'' \<or> c = CHR ''.'' then CHR ''-'' else c)
                        (toISOString (renderer w) (clock w 0));
          backupDir = path_join [dir, ''exif_backup_'' @ timestamp]
      in backup_probe w backupDir backupDir 1)"

datatype status = Preview | Pending | Renamed | Error

record outcome =
  original :: string
  new :: "string option"
  status :: status
  exifFound :: "bool option"
  error :: "string option"

text \<open>The entry the \<^verbatim>\<open>catch\<close> of the loop pushes (index.js, lines 530 to 537).\<close>

definition failure :: "string \<Rightarrow> error \<Rightarrow> outcome" where
  "failure filepath e =
     \<lparr>original = basename filepath, new = None, status = Error, exifFound = None,
      error = Some (message e)\<rparr>"

text \<open>
  One round of the loop up to the \<^verbatim>\<open>push\<close> (index.js, lines 418 to 506): the
  validated path, the final path and whether metadata was found, or the error thrown.
\<close>

definition plan_item :: "world \<Rightarrow> args \<Rightarrow> nat \<Rightarrow> int \<Rightarrow> string \<Rightarrow> (error + string \<times> string \<times> bool) option" where
  "plan_item w a i counter filepath =
     (case validated w filepath of
        Inl e \<Rightarrow> Some (Inl e)
      | Inr safePath \<Rightarrow>
          (case exifr_parse w safePath of
             Inl e \<Rightarrow> Some (Inl e)
           | Inr exifData \<Rightarrow>
               (let dir = dirname safePath;
                    ext = extname safePath;
                    newName = cleanName (fillTemplate w a i counter safePath exifData);
                    newPath = path_join [dir, newName @ ext]
                in case probe w safePath dir newName ext newPath 1 of
                     None \<Rightarrow> None
                   | Some finalPath \<Rightarrow> Some (Inr (safePath, finalPath, exifData \<noteq> None)))))"

text \<open>
  The renames of a round that is not a dry run (index.js, lines 516 to 524). A failure
  comes with the world as the renames before it left it.
\<close>

definition commit :: "world \<Rightarrow> args \<Rightarrow> string option \<Rightarrow> string \<Rightarrow> string \<Rightarrow> world \<times> error + world" where
  "commit w a backupDir safePath finalPath =
     (if backup a
      then (case backupDir of
              None \<Rightarrow> Inl (w, TypeError ''The path argument must be of type string. Received undefined'')
            | Some bd \<Rightarrow>
                (let backupPath = path_join [bd, basename safePath]
                 in case rename w safePath backupPath of
                      Inl e \<Rightarrow> Inl (w, e)
                    | Inr w1 \<Rightarrow>
                        (case rename w1 backupPath finalPath of
                           Inl e \<Rightarrow> Inl (w1, e)
                         | Inr w2 \<Rightarrow> Inr w2)))
      else (case rename w safePath finalPath of
              Inl e \<Rightarrow> Inl (w, e)
            | Inr w1 \<Rightarrow> Inr w1))"

text \<open>\<^verbatim>\<open>results[results.length - 1].status = 'renamed'\<close>\<close>

definition mark_renamed :: "outcome list \<Rightarrow> outcome list" where
  "mark_renamed results =
     (if results = [] then results
      else butlast results @ [(last results)\<lparr>status := Renamed\<rparr>])"

text \<open>
  One round of the loop (index.js, lines 416 to 538). The state is the world, the
  counter and the results pushed so far.
\<close>

definition rename_item ::
    "args \<Rightarrow> string option \<Rightarrow> nat \<Rightarrow> world \<times> int \<times> outcome list \<Rightarrow> string
       \<Rightarrow> (world \<times> int \<times> outcome list) option" where
  "rename_item a backupDir i st filepath =
     (case st of
        (w, counter, results) \<Rightarrow>
          (case plan_item w a i counter filepath of
             None \<Rightarrow> None
           | Some (Inl e) \<Rightarrow> Some (w, counter, results @ [failure filepath e])
           | Some (Inr (safePath, finalPath, found)) \<Rightarrow>
               (let pushed = results @
                      [\<lparr>original = basename safePath, new = Some (basename finalPath),
                        status = (if dryRun a then Preview else Pending),
                        exifFound = Some found, error = None\<rparr>]
                in if dryRun a then Some (w, counter + 1, pushed)
                   else (case commit w a backupDir safePath finalPath of
                           Inl (w', e) \<Rightarrow> Some (w', counter, pushed @ [failure filepath e])
                         | Inr w' \<Rightarrow> Some (w', counter + 1, mark_renamed pushed)))))"

fun rename_loop ::
    "args \<Rightarrow> string option \<Rightarrow> nat \<Rightarrow> world \<times> int \<times> outcome list \<Rightarrow> string list
       \<Rightarrow> (world \<times> int \<times> outcome list) option" where
  "rename_loop a backupDir i st [] = Some st"
| "rename_loop a backupDir i st (filepath # rest) =
     (case rename_item a backupDir i st filepath of
        None \<Rightarrow> None
      | Some st' \<Rightarrow> rename_loop a backupDir (Suc i) st' rest)"

record rename_report =
  rep_preview :: bool
  rep_template :: string
  rep_backups :: "string option"
  rep_results :: "outcome list"
  rep_successCount :: nat
  rep_errorCount :: nat

text \<open>
  The report (index.js, lines 540 to 573), kept as what its text prints: one block for
  each entry of \<^verbatim>\<open>results\<close> and the two counts.
\<close>

definition make_report :: "args \<Rightarrow> string option \<Rightarrow> outcome list \<Rightarrow> rename_report" where
  "make_report a backupDir results =
     \<lparr>rep_preview = dryRun a,
      rep_template = template a,
      rep_backups = (if backup a \<and> \<not> dryRun a then backupDir else None),
      rep_results = results,
      rep_successCount = length (filter (\<lambda>r. status r \<noteq> Error) results),
      rep_errorCount = length (filter (\<lambda>r. status r = Error) results)\<rparr>"

text \<open>
  The handler (index.js, lines 390 to 574): the final world, the final counter and the
  reply, or \<open>None\<close> when a probing loop never ends.
\<close>

definition run_batch :: "world \<Rightarrow> args \<Rightarrow> string option \<Rightarrow> (world \<times> int \<times> rename_report reply) option" where
  "run_batch w a backupDir =
     (case rename_loop a backupDir 1 (w, counterStart a, []) (filepaths a) of
        None \<Rightarrow> None
      | Some (w', counter, results) \<Rightarrow> Some (w', counter, Reply (make_report a backupDir results)))"

definition rename_by_exif :: "world \<Rightarrow> args \<Rightarrow> (world \<times> int \<times> rename_report reply) option" where
  "rename_by_exif w a =
     (case filepaths a of
        [] \<Rightarrow> Some (w, counterStart a, respond (Inl EmptyFilepaths))
      | first # _ \<Rightarrow>
          if backup a \<and> \<not> dryRun a
          then (case createSafeBackupDir w first of
                  None \<Rightarrow> None
                | Some backupDir \<Rightarrow>
                    (case mkdir w backupDir of
                       Inl e \<Rightarrow> Some (w, counterStart a, respond (Inl e))
                     | Inr w1 \<Rightarrow> run_batch w1 a (Some backupDir)))
          else run_batch w a None)"


section \<open>Sample inputs\<close>

text \<open>
  A renderer that prints a number by its integer part and a date by its milliseconds, a
  clock that stands still, and an operating system that refuses nothing.
\<close>

definition plain_render :: render where
  "plain_render =
     \<lparr>num_to_string = (\<lambda>x. show_int \<lfloor>x\<rfloor>),
      toFixed = (\<lambda>n x. show_int \<lfloor>x\<rfloor>),
      toLocaleString = (\<lambda>d. show_int (millis d)),
      toISOString = (\<lambda>d. show_int (millis d))\<rparr>"

text \<open>The \<open>s\<close>-th second after 14:30 on 9 July 2024 (UTC), for \<open>s\<close> below 60.\<close>

definition july9 :: "nat \<Rightarrow> jsdate" where
  "july9 s =
     \<lparr>millis = 1720535400000 + 1000 * int s, getFullYear = 2024, getMonth = 6, getDate = 9,
      getHours = 14, getMinutes = 30, getSeconds = s\<rparr>"

definition no_exif :: exif where
  "no_exif =
     \<lparr>DateTimeOriginal = None, CreateDate = None, Make = None, Model = None, LensModel = None,
      latitude = None, longitude = None, altitude = None, City = None, Country = None,
      Country_PrimaryLocationName = None\<rparr>"

definition image :: "exif \<Rightarrow> node" where
  "image e = Photo \<lparr>exif_of = Inr (Some e), gps_of = Inr None\<rparr>"

definition default_args :: args where
  "default_args =
     \<lparr>filepaths = [], template = ''{datetime}_{camera}_{original}'', dateFormat = ''YYYY-MM-DD'',
      timeFormat = ''HHmmss'', dryRun = True, backup = True, counterStart = 1, outputPath = [],
      title = ''My Photo Journey'', description = [], thumbnailSize = 800,
      includeFullImages = False, drawPath = True, numberPhotos = True\<rparr>"

definition photos_world :: "(string \<times> node) list \<Rightarrow> world" where
  "photos_world entries =
     \<lparr>cwd = ''/srv/photos'', fs = (''/srv'', Dir) # (''/srv/photos'', Dir) # entries, refuses = (\<lambda>_. None),
      clock = (\<lambda>_. july9 59), renderer = plain_render\<rparr>"

text \<open>A photo taken at sea level, as \<^verbatim>\<open>exifr.gps\<close> reports it.\<close>

definition beach_world :: world where
  "beach_world =
     photos_world
       [(''/srv/photos/beach.jpg'',
         Photo \<lparr>exif_of = Inr None,
                gps_of = Inr (Some \<lparr>gps_latitude = 52, gps_longitude = 4, gps_altitude = Some 0\<rparr>)\<rparr>)]"









text \<open>Two photos of a Canon camera and a text file.\<close>

definition canon :: "nat \<Rightarrow> exif" where
  "canon s = no_exif\<lparr>DateTimeOriginal := Some (july9 s), Make := Some ''Canon''\<rparr>"

definition canon_world :: world where
  "canon_world =
     photos_world
       [(''/srv/photos/IMG_1.jpg'', image (canon 22)),
        (''/srv/photos/IMG_2.jpg'', image (canon 23)),
        (''/srv/photos/notes.txt'', Other ''shopping list'')]"

text \<open>The same directory when the operating system refuses every rename.\<close>

definition locked_world :: world where
  "locked_world =
     canon_world\<lparr>refuses :=
       (\<lambda>op. case op of OpRename _ _ \<Rightarrow> Some ''EACCES: permission denied, rename'' | _ \<Rightarrow> None)\<rparr>"

definition locked_args :: args where
  "locked_args = default_args\<lparr>filepaths := [''IMG_1.jpg''], dryRun := False, backup := False\<rparr>"






section \<open>What the specification asks\<close>

text \<open>
  A path lies within a root directory when it is the root or continues it after a
  separator.
\<close>

definition within_root :: "string \<Rightarrow> string \<Rightarrow> bool" where
  "within_root base p = (p = base \<or> startsWith p (if base = ''/'' then base else base @ ''/''))"


text \<open>
  The outcomes a reply lists, and the outcomes that stand for a file whose round ran to
  its end: a preview or a completed rename.
\<close>

definition outcomes :: "rename_report reply \<Rightarrow> outcome list" where
  "outcomes r = (case r of Reply rep \<Rightarrow> rep_results rep | ErrorReply _ \<Rightarrow> [])"





section \<open>Path validation\<close>


lemma validateFilePath_rejects_dots:
  assumes "filepath \<noteq> []" and "includes_str (path_resolve dir filepath) ''..''"
  shows "validateFilePath dir filepath = Inl PathTraversal"
  using assms by (simp add: validateFilePath_def Let_def)

text \<open>
  C1. The claim: every path the validator returns lies within the working directory.
  The test in the code is \<^verbatim>\<open>absolutePath.startsWith(process.cwd())\<close>, a comparison of
  texts: with the working directory \<^verbatim>\<open>/srv/photos\<close> the path
  \<^verbatim>\<open>/srv/photos2/a.jpg\<close>, in a sibling directory, is returned.
\<close>

theorem validateFilePath_accepts_sibling_directory:
  "validateFilePath ''/srv/photos'' ''/srv/photos2/a.jpg'' = Inr ''/srv/photos2/a.jpg''
   \<and> \<not> within_root ''/srv/photos'' ''/srv/photos2/a.jpg''"
  by code_simp

section \<open>parse_exif\<close>

text \<open>
  C5. The claim: \<^verbatim>\<open>parse_exif\<close> passes its path through the validator and replies
  with a report or a notice. The handler never calls the validator; it reads the
  undeclared \<^verbatim>\<open>safePath\<close>, so every call, whatever the file, ends in the reply flagged
  as an error.
\<close>

theorem parse_exif_always_fails:
  "parse_exif w formatExifData filepath options = ErrorReply ''Error: safePath is not defined''
   \<and> isError (parse_exif w formatExifData filepath options)"
  by (simp add: parse_exif_def read_var_def parse_exif_scope_def respond_def message_def isError_def)

section \<open>get_gps_coordinates\<close>

text \<open>
  C9. For a file that passes validation and whose GPS record has the altitude 0 or no
  altitude, the reply's coordinates carry \<^verbatim>\<open>null\<close> for the altitude.
\<close>

theorem gps_altitude_zero_is_null:
  assumes "validated w filepath = Inr safePath"
    and "exifr_gps w safePath = Inr (Some gpsData)"
    and "gps_altitude gpsData = None \<or> gps_altitude gpsData = Some 0"
  shows "get_gps_coordinates w filepath =
           Reply (GpsReport (basename safePath)
                   \<lparr>co_latitude = gps_latitude gpsData, co_longitude = gps_longitude gpsData,
                    co_altitude = None\<rparr>
                   (''https://www.google.com/maps?q=''
                      @ num_to_string (renderer w) (gps_latitude gpsData) @ '',''
                      @ num_to_string (renderer w) (gps_longitude gpsData)))"
  using assms by (auto simp: get_gps_coordinates_def respond_def or_null_def truthy_num_def)

theorem gps_altitude_zero_is_null_witness:
  "validated beach_world ''beach.jpg'' = Inr ''/srv/photos/beach.jpg''
   \<and> exifr_gps beach_world ''/srv/photos/beach.jpg''
       = Inr (Some \<lparr>gps_latitude = 52, gps_longitude = 4, gps_altitude = Some 0\<rparr>)
   \<and> get_gps_coordinates beach_world ''beach.jpg''
       = Reply (GpsReport ''beach.jpg''
                 \<lparr>co_latitude = 52, co_longitude = 4, co_altitude = None\<rparr>
                 ''https://www.google.com/maps?q=52,4'')"
proof -
  let ?g = "\<lparr>gps_latitude = 52, gps_longitude = 4, gps_altitude = Some 0\<rparr>"
  have v: "validated beach_world ''beach.jpg'' = Inr ''/srv/photos/beach.jpg''"
    by code_simp
  have g: "exifr_gps beach_world ''/srv/photos/beach.jpg'' = Inr (Some ?g)"
    by code_simp
  have a: "gps_altitude ?g = None \<or> gps_altitude ?g = Some 0"
    by simp
  have b: "basename ''/srv/photos/beach.jpg'' = ''beach.jpg''"
    by code_simp
  have n: "num_to_string (renderer beach_world) 52 = ''52''"
          "num_to_string (renderer beach_world) 4 = ''4''"
    by code_simp+
  from gps_altitude_zero_is_null [OF v g a] b n v g show ?thesis
    by simp
qed

section \<open>create_photo_tour_kmz\<close>

text \<open>
  What does hold of the tour: the numbers given while collecting are 1, 2, ... without
  gaps, the sorted entries are in the order of their capture times, and a tour that is
  created has removed its scratch directory.
\<close>

lemma tour_entry_number: "tour_entry w a i n filepath = Inr (Some p) \<Longrightarrow> ph_number p = n"
  by (auto simp: tour_entry_def Let_def split: sum.splits option.splits if_splits)

lemma collect_photos_numbers:
  "\<exists>k. map ph_number (collect_photos w a i n acc fps) = map ph_number acc @ [n ..< n + k]"
proof (induction fps arbitrary: i n acc)
  case Nil
  have "map ph_number (collect_photos w a i n acc []) = map ph_number acc @ [n ..< n + 0]" by simp
  then show ?case by blast
next
  case (Cons f fps)
  show ?case
  proof (cases "tour_entry w a i n f")
    case (Inl e)
    with Cons [of "Suc i" n acc] show ?thesis by simp
  next
    case (Inr r)
    show ?thesis
    proof (cases r)
      case None
      with Inr Cons [of "Suc i" n acc] show ?thesis by simp
    next
      case (Some p)
      from Cons [of "Suc i" "Suc n" "acc @ [p]"] obtain k where
        k: "map ph_number (collect_photos w a (Suc i) (Suc n) (acc @ [p]) fps)
              = map ph_number (acc @ [p]) @ [Suc n ..< Suc n + k]" by blast
      from Inr Some have "ph_number p = n" by (simp add: tour_entry_number)
      with k Inr Some have "map ph_number (collect_photos w a i n acc (f # fps))
              = map ph_number acc @ [n ..< n + Suc k]"
        by (simp add: upt_conv_Cons)
      then show ?thesis by blast
    qed
  qed
qed

lemma tour_numbers_without_gaps:
  "map ph_number (collect_photos w a i 1 [] fps) = [1 ..< Suc (length (collect_photos w a i 1 [] fps))]"
proof -
  from collect_photos_numbers [of w a i 1 "[]" fps] obtain k where
    k: "map ph_number (collect_photos w a i 1 [] fps) = [1 ..< 1 + k]" by auto
  then have "length (collect_photos w a i 1 [] fps) = k"
    by (metis add_diff_cancel_left' length_map length_upt)
  with k show ?thesis by simp
qed

lemma tour_sorted_by_time: "sorted (map (\<lambda>p. millis (ph_datetime p)) (sort_by_datetime ps))"
  by (simp add: sort_by_datetime_def)

lemma removeDir_removes: "removeDir w p = Inr w' \<Longrightarrow> \<not> existsSync w' p"
  by (auto simp: removeDir_def Let_def existsSync_def lookup_def inside_def map_of_eq_None_iff
           split: option.splits)

lemma package_tour_success_cleans:
  assumes "package_tour w a out ps = (w', Inr r)"
  shows "\<not> existsSync w'
           (path_join [dirname out,
                       ''.kmz_temp_'' @ show_int (millis (clock w (Suc (length (filepaths a)))))])"
proof -
  let ?t = "path_join [dirname out,
                       ''.kmz_temp_'' @ show_int (millis (clock w (Suc (length (filepaths a)))))]"
  from assms obtain w5 where "removeDir w5 ?t = Inr w'"
    by (auto simp: package_tour_def Let_def split: sum.splits if_splits)
  then show ?thesis by (rule removeDir_removes)
qed






section \<open>Coordinates that are zero\<close>



section \<open>The text of the KML document\<close>















section \<open>Paths and their segments\<close>

lemma split_at_not_Nil [simp]: "split_at d s \<noteq> []"
  by (induction s) (auto split: list.splits)











section \<open>Digits\<close>







section \<open>Candidates\<close>






section \<open>The probing loops end\<close>










section \<open>One round of the rename loop\<close>






section \<open>The whole loop\<close>




section \<open>What a commit changes\<close>







section \<open>Resolving twice\<close>








section \<open>The moves of a batch\<close>







section \<open>The report and the counter of a batch\<close>

text \<open>
  C2. The claim: a batch of N files reports exactly N outcomes. The loop pushes the
  outcome of a file before it renames the file, and its \<^verbatim>\<open>catch\<close> pushes another one:
  when the rename of \<^verbatim>\<open>IMG_1.jpg\<close> is refused, the batch of this one file reports two
  outcomes, a stale \<^verbatim>\<open>pending\<close> one and the error.
\<close>

theorem failed_rename_reports_two_outcomes:
  "length (filepaths locked_args) = 1
   \<and> map_option (\<lambda>(w, c, r). map (\<lambda>x. (original x, new x, status x)) (outcomes r))
        (rename_by_exif locked_world locked_args)
      = Some [(''IMG_1.jpg'', Some ''2024-07-09_143022_Canon_IMG_1.jpg'', Pending),
              (''IMG_1.jpg'', None, Error)]"
  by code_simp



section \<open>Collisions\<close>






end
